theory Spec2Isabelle
  imports Complex_Main "HOL-Library.Word"
begin

section \<open>Strings of the host language\<close>

text \<open>
  A JavaScript string is a sequence of UTF-16 code units. \<open>String.prototype.split\<close>,
  \<open>String.prototype.replace\<close> with a regular expression that has no \<open>u\<close> flag, and
  string concatenation all work code unit by code unit, so a title is a list of
  16-bit words. \<open>str\<close> embeds an ASCII literal of the source text.
\<close>

type_synonym codeunit = "16 word"
type_synonym jsstring = "codeunit list"
type_synonym bytes = "8 word list"

definition str :: "string \<Rightarrow> jsstring" where
  "str s = map (\<lambda>c. of_nat (of_char c)) s"

text \<open>The separator of \<open>title.split(' ')\<close> and of \<open>currentLine + ' ' + word\<close>: U+0020.\<close>

definition sp :: codeunit where
  "sp = 0x20"

text \<open>
  \<open>s.split(sep)\<close> for a separator of one code unit: every occurrence of the separator
  ends a piece, the pieces keep their order, two separators in a row give an empty
  piece, and the empty string gives the one-element array holding the empty string.
  \<open>cur\<close> is the piece being read.
\<close>

fun split_from :: "codeunit \<Rightarrow> jsstring \<Rightarrow> jsstring \<Rightarrow> jsstring list" where
  "split_from sep cur [] = [cur]"
| "split_from sep cur (c # cs) =
     (if c = sep then cur # split_from sep [] cs else split_from sep (cur @ [c]) cs)"

definition split_on :: "codeunit \<Rightarrow> jsstring \<Rightarrow> jsstring list" where
  "split_on sep s = split_from sep [] s"

text \<open>\<open>pieces.join(sep)\<close>, the inverse direction, used to state what the wrap keeps.\<close>

fun join_with :: "codeunit \<Rightarrow> jsstring list \<Rightarrow> jsstring" where
  "join_with sep [] = []"
| "join_with sep [w] = w"
| "join_with sep (w # v # ws) = w @ sep # join_with sep (v # ws)"

subsection \<open>The file name sanitiser\<close>

text \<open>
  \<open>/[^a-z0-9]/gi\<close>: a negated class, matched against every code unit (flag \<open>g\<close>,
  no flag \<open>u\<close>). With flag \<open>i\<close> and no flag \<open>u\<close> a code unit is compared after
  canonicalisation to upper case, where a code unit of value 128 or more is never
  canonicalised to one below 128; so the class \<open>[a-z0-9]\<close> holds exactly the ASCII
  letters of both cases and the ASCII digits, and the negated class every other code unit.
\<close>

definition in_class_az09_i :: "codeunit \<Rightarrow> bool" where
  "in_class_az09_i c \<longleftrightarrow>
     (0x61 \<le> c \<and> c \<le> 0x7A) \<or> (0x41 \<le> c \<and> c \<le> 0x5A) \<or> (0x30 \<le> c \<and> c \<le> 0x39)"

definition underscore :: codeunit where
  "underscore = 0x5F"

text \<open>\<open>s.replace(/[^a-z0-9]/gi, '_')\<close>: every matching code unit becomes one \<open>_\<close>.\<close>

definition replace_non_alnum :: "jsstring \<Rightarrow> jsstring" where
  "replace_non_alnum s = map (\<lambda>c. if in_class_az09_i c then c else underscore) s"

text \<open>
  \<open>s.toLowerCase()\<close> on the code units below 128: \<open>A\<close> to \<open>Z\<close> move to \<open>a\<close> to
  \<open>z\<close>, every other ASCII code unit stays. The renderer calls it on the result of
  the replacement only, which holds no code unit of 128 or more
  (\<open>replace_non_alnum_ascii\<close> below), so the Unicode case mapping of the other code
  units is never reached and is left as the identity here.
\<close>

definition toLowerCase_unit :: "codeunit \<Rightarrow> codeunit" where
  "toLowerCase_unit c = (if 0x41 \<le> c \<and> c \<le> 0x5A then c + 0x20 else c)"

definition toLowerCase :: "jsstring \<Rightarrow> jsstring" where
  "toLowerCase s = map toLowerCase_unit s"

text \<open>\<open>title.replace(/[^a-z0-9]/gi, '_').toLowerCase()\<close>\<close>

definition sanitize :: "jsstring \<Rightarrow> jsstring" where
  "sanitize title = toLowerCase (replace_non_alnum title)"

section \<open>The canvas\<close>

text \<open>
  The part of the \<open>canvas\<close> package the renderer uses. A canvas and its 2D context
  are one record: the size, the four style settings the code assigns, and the drawing
  calls made so far, in order. Coordinates and sizes are JavaScript numbers; every
  value computed here is an integer far below \<open>2^53\<close>, where the arithmetic of doubles
  is exact, so they are reals.
\<close>

text \<open>A decoded image: its size in pixels and its pixel data.\<close>

datatype image = Image nat nat bytes

datatype gradient = LinearGradient real real real real "(real \<times> jsstring) list"

datatype fill_style = Color jsstring | Gradient gradient

datatype draw_op =
    FillRect fill_style real real real real
  | DrawImage image real real real real
  | FillText jsstring real real jsstring fill_style jsstring jsstring

record canvas =
  width :: real
  height :: real
  font :: jsstring
  fillStyle :: fill_style
  textAlign :: jsstring
  textBaseline :: jsstring
  drawn :: "draw_op list"

text \<open>\<open>createCanvas(w, h)\<close> with \<open>getContext('2d')\<close>: a blank canvas with the default styles.\<close>

definition createCanvas :: "real \<Rightarrow> real \<Rightarrow> canvas" where
  "createCanvas w h =
     \<lparr>width = w, height = h, font = str ''10px sans-serif'', fillStyle = Color (str ''#000000''),
      textAlign = str ''start'', textBaseline = str ''alphabetic'', drawn = []\<rparr>"

definition createLinearGradient :: "real \<Rightarrow> real \<Rightarrow> real \<Rightarrow> real \<Rightarrow> gradient" where
  "createLinearGradient a b c d = LinearGradient a b c d []"

fun addColorStop :: "gradient \<Rightarrow> real \<Rightarrow> jsstring \<Rightarrow> gradient" where
  "addColorStop (LinearGradient a b c d stops) off col = LinearGradient a b c d (stops @ [(off, col)])"

definition fillRect :: "canvas \<Rightarrow> real \<Rightarrow> real \<Rightarrow> real \<Rightarrow> real \<Rightarrow> canvas" where
  "fillRect ctx x y w h = ctx\<lparr>drawn := drawn ctx @ [FillRect (fillStyle ctx) x y w h]\<rparr>"

definition drawImage :: "canvas \<Rightarrow> image \<Rightarrow> real \<Rightarrow> real \<Rightarrow> real \<Rightarrow> real \<Rightarrow> canvas" where
  "drawImage ctx img x y w h = ctx\<lparr>drawn := drawn ctx @ [DrawImage img x y w h]\<rparr>"

text \<open>\<open>ctx.fillText(text, x, y)\<close> draws with the styles set at the time of the call.\<close>

definition fillText :: "canvas \<Rightarrow> jsstring \<Rightarrow> real \<Rightarrow> real \<Rightarrow> canvas" where
  "fillText ctx t x y =
     ctx\<lparr>drawn := drawn ctx @ [FillText t x y (font ctx) (fillStyle ctx) (textAlign ctx) (textBaseline ctx)]\<rparr>"

section \<open>The environment of a call\<close>

text \<open>
  What the renderer takes from outside the repository: \<open>process.cwd()\<close>, \<open>path.join\<close>,
  the font metrics behind \<open>ctx.measureText(text).width\<close> (a function of the font set
  on the context and the text), the image decoder behind \<open>loadImage\<close>, the PNG encoder
  behind \<open>canvas.toBuffer('image/png')\<close>, and the paths \<open>writeFile\<close> refuses. Errors
  are the values \<open>'e\<close> these libraries raise; the renderer has no error type of its
  own. Each is a parameter, not a definition.
\<close>

record 'e env =
  cwd :: jsstring
  path_join :: "jsstring list \<Rightarrow> jsstring"
  text_width :: "jsstring \<Rightarrow> jsstring \<Rightarrow> real"
  no_such_file :: "jsstring \<Rightarrow> 'e"
  decode_image :: "bytes \<Rightarrow> 'e + image"
  encode_png :: "canvas \<Rightarrow> bytes"
  write_error :: "jsstring \<Rightarrow> 'e option"

text \<open>
  The file system is the state a call changes: the content of each regular file by
  path, and the I/O calls made so far, in order (so that a second attempt would show).
\<close>

datatype io_event = LoadImage jsstring | WriteFile jsstring bytes

record world =
  files :: "jsstring \<rightharpoonup> bytes"
  io_log :: "io_event list"

definition measureText :: "'e env \<Rightarrow> canvas \<Rightarrow> jsstring \<Rightarrow> real" where
  "measureText env ctx t = text_width env (font ctx) t"

definition toBuffer :: "'e env \<Rightarrow> canvas \<Rightarrow> bytes" where
  "toBuffer env canvas = encode_png env canvas"

text \<open>
  \<open>await loadImage(path)\<close>: reads the file and decodes it; a missing file or an
  undecodable one rejects. \<open>Inl\<close> is the rejection.
\<close>

definition loadImage :: "'e env \<Rightarrow> world \<Rightarrow> jsstring \<Rightarrow> ('e + image) \<times> world" where
  "loadImage env w p =
     ((case files w p of None \<Rightarrow> Inl (no_such_file env p) | Some b \<Rightarrow> decode_image env b),
      w\<lparr>io_log := io_log w @ [LoadImage p]\<rparr>)"

text \<open>
  \<open>await writeFile(path, buffer)\<close>: on success the file at the path holds the buffer,
  replacing what was there; on failure nothing is written.
\<close>

definition writeFile :: "'e env \<Rightarrow> world \<Rightarrow> jsstring \<Rightarrow> bytes \<Rightarrow> ('e + unit) \<times> world" where
  "writeFile env w p b =
     (case write_error env p of
        Some e \<Rightarrow> (Inl e, w\<lparr>io_log := io_log w @ [WriteFile p b]\<rparr>)
      | None \<Rightarrow> (Inr (), w\<lparr>files := (files w)(p \<mapsto> b), io_log := io_log w @ [WriteFile p b]\<rparr>))"

section \<open>The thumbnail renderers\<close>

text \<open>
  \<open>src/lib/actions.ts\<close>. Both functions declare the same five constants
  (lines 8 to 12 and 73 to 77).
\<close>

definition canvasWidth :: real where "canvasWidth = 800"
definition canvasHeight :: real where "canvasHeight = 400"
definition padding :: real where "padding = 20"
definition lineHeight :: real where "lineHeight = 50"
definition maxTextWidth :: real where "maxTextWidth = canvasWidth - padding * 2"

subsection \<open>generateThumbnail\<close>

text \<open>Lines 15 to 28: the canvas, the gradient background, the text styles.\<close>

definition generateThumbnail_ctx :: "canvas" where
  "generateThumbnail_ctx =
     (let ctx = createCanvas canvasWidth canvasHeight;
          gradient = createLinearGradient 0 0 canvasWidth canvasHeight;
          gradient = addColorStop gradient 0 (str ''#588157'');
          gradient = addColorStop gradient 1 (str ''#344e41'');
          ctx = ctx\<lparr>fillStyle := Gradient gradient\<rparr>;
          ctx = fillRect ctx 10 10 (canvasWidth - 20) (canvasHeight - 20);
          ctx = ctx\<lparr>font := str ''bold 40px Arial''\<rparr>;
          ctx = ctx\<lparr>fillStyle := Color (str ''#ffffff'')\<rparr>;
          ctx = ctx\<lparr>textAlign := str ''center''\<rparr>;
          ctx = ctx\<lparr>textBaseline := str ''middle''\<rparr>
      in ctx)"

text \<open>
  Lines 35 to 44: the loop over \<open>words[1..]\<close>, with the variables \<open>i\<close>, \<open>lines\<close> and
  \<open>currentLine\<close> it changes. It returns \<open>lines\<close> and \<open>currentLine\<close> as the loop leaves them.
\<close>

function generateThumbnail_loop ::
  "'e env \<Rightarrow> canvas \<Rightarrow> jsstring list \<Rightarrow> nat \<Rightarrow> jsstring list \<Rightarrow> jsstring
     \<Rightarrow> jsstring list \<times> jsstring" where
  "generateThumbnail_loop env ctx words i lines currentLine =
     (if i < length words then
        (let word = words ! i;
             width = measureText env ctx (currentLine @ [sp] @ word)
         in if width < maxTextWidth
            then generateThumbnail_loop env ctx words (i + 1) lines (currentLine @ [sp] @ word)
            else generateThumbnail_loop env ctx words (i + 1) (lines @ [currentLine]) word)
      else (lines, currentLine))"
  by pat_completeness auto
termination
  by (relation "measure (\<lambda>(env, ctx, words, i, lines, currentLine). length words - i)") auto

declare generateThumbnail_loop.simps [simp del]

text \<open>
  Lines 31 to 45. \<open>words[0]\<close> is in range for every title: \<open>split\<close> never returns the
  empty array (\<open>split_on_not_Nil\<close> below).
\<close>

definition generateThumbnail_lines :: "'e env \<Rightarrow> jsstring \<Rightarrow> jsstring list" where
  "generateThumbnail_lines env title =
     (let ctx = generateThumbnail_ctx;
          words = split_on sp title;
          (lines, currentLine) = generateThumbnail_loop env ctx words 1 [] (words ! 0)
      in lines @ [currentLine])"

text \<open>Lines 52 to 55: one \<open>fillText\<close> per line, \<open>y\<close> growing by the line height.\<close>

fun generateThumbnail_draw :: "canvas \<Rightarrow> real \<Rightarrow> jsstring list \<Rightarrow> canvas" where
  "generateThumbnail_draw ctx y [] = ctx"
| "generateThumbnail_draw ctx y (line # rest) =
     generateThumbnail_draw (fillText ctx line (canvasWidth / 2) y) (y + lineHeight) rest"

text \<open>Lines 48 to 55: the canvas when the text has been drawn.\<close>

definition generateThumbnail_canvas :: "'e env \<Rightarrow> jsstring \<Rightarrow> canvas" where
  "generateThumbnail_canvas env title =
     (let lines = generateThumbnail_lines env title;
          totalTextHeight = real (length lines) * lineHeight;
          y = (canvasHeight - totalTextHeight) / 2 + lineHeight / 2
      in generateThumbnail_draw generateThumbnail_ctx y lines)"

text \<open>Lines 58 to 63: the argument of \<open>writeFile\<close>; the file name is \<open>${title}.png\<close>.\<close>

definition generateThumbnail_fileName :: "jsstring \<Rightarrow> jsstring" where
  "generateThumbnail_fileName title = title @ str ''.png''"

definition generateThumbnail_outputPath :: "'e env \<Rightarrow> jsstring \<Rightarrow> jsstring" where
  "generateThumbnail_outputPath env title =
     path_join env [cwd env, str ''public'', str ''thumbnails'', generateThumbnail_fileName title]"

text \<open>Line 67: the value returned.\<close>

definition generateThumbnail_url :: "jsstring \<Rightarrow> jsstring" where
  "generateThumbnail_url title = str ''/thumbnails/'' @ title @ str ''.png''"

text \<open>
  The whole call, lines 7 to 68. The promise it returns is rejected (\<open>Inl\<close>) when
  \<open>writeFile\<close> rejects: there is no \<open>try\<close> in the function.
\<close>

definition generateThumbnail ::
  "'e env \<Rightarrow> world \<Rightarrow> jsstring \<Rightarrow> ('e + jsstring) \<times> world" where
  "generateThumbnail env w title =
     (let canvas = generateThumbnail_canvas env title;
          outputPath = generateThumbnail_outputPath env title;
          buffer = toBuffer env canvas
      in case writeFile env w outputPath buffer of
           (Inl e, w') \<Rightarrow> (Inl e, w')
         | (Inr u, w') \<Rightarrow> (Inr (generateThumbnail_url title), w'))"

subsection \<open>generateThumbnailWithImage\<close>

text \<open>Lines 84 to 88: where the background image is read from.\<close>

definition gradientImagePath :: "'e env \<Rightarrow> jsstring" where
  "gradientImagePath env = path_join env [cwd env, str ''public'', str ''gradient-bg.png'']"

text \<open>Lines 80 to 96, once the image is loaded: the canvas, the image, the text styles.\<close>

definition generateThumbnailWithImage_ctx :: "image \<Rightarrow> canvas" where
  "generateThumbnailWithImage_ctx gradientImage =
     (let ctx = createCanvas canvasWidth canvasHeight;
          ctx = drawImage ctx gradientImage 0 0 canvasWidth canvasHeight;
          ctx = ctx\<lparr>font := str ''bold 40px Arial''\<rparr>;
          ctx = ctx\<lparr>fillStyle := Color (str ''#ffffff'')\<rparr>;
          ctx = ctx\<lparr>textAlign := str ''center''\<rparr>;
          ctx = ctx\<lparr>textBaseline := str ''middle''\<rparr>
      in ctx)"

text \<open>Lines 103 to 112: the second copy of the loop.\<close>

function generateThumbnailWithImage_loop ::
  "'e env \<Rightarrow> canvas \<Rightarrow> jsstring list \<Rightarrow> nat \<Rightarrow> jsstring list \<Rightarrow> jsstring
     \<Rightarrow> jsstring list \<times> jsstring" where
  "generateThumbnailWithImage_loop env ctx words i lines currentLine =
     (if i < length words then
        (let word = words ! i;
             width = measureText env ctx (currentLine @ [sp] @ word)
         in if width < maxTextWidth
            then generateThumbnailWithImage_loop env ctx words (i + 1) lines (currentLine @ [sp] @ word)
            else generateThumbnailWithImage_loop env ctx words (i + 1) (lines @ [currentLine]) word)
      else (lines, currentLine))"
  by pat_completeness auto
termination
  by (relation "measure (\<lambda>(env, ctx, words, i, lines, currentLine). length words - i)") auto

declare generateThumbnailWithImage_loop.simps [simp del]

text \<open>Lines 99 to 113.\<close>

definition generateThumbnailWithImage_lines ::
  "'e env \<Rightarrow> image \<Rightarrow> jsstring \<Rightarrow> jsstring list" where
  "generateThumbnailWithImage_lines env gradientImage title =
     (let ctx = generateThumbnailWithImage_ctx gradientImage;
          words = split_on sp title;
          (lines, currentLine) = generateThumbnailWithImage_loop env ctx words 1 [] (words ! 0)
      in lines @ [currentLine])"

text \<open>Lines 120 to 123.\<close>

fun generateThumbnailWithImage_draw :: "canvas \<Rightarrow> real \<Rightarrow> jsstring list \<Rightarrow> canvas" where
  "generateThumbnailWithImage_draw ctx y [] = ctx"
| "generateThumbnailWithImage_draw ctx y (line # rest) =
     generateThumbnailWithImage_draw (fillText ctx line (canvasWidth / 2) y) (y + lineHeight) rest"

text \<open>Lines 116 to 123.\<close>

definition generateThumbnailWithImage_canvas ::
  "'e env \<Rightarrow> image \<Rightarrow> jsstring \<Rightarrow> canvas" where
  "generateThumbnailWithImage_canvas env gradientImage title =
     (let lines = generateThumbnailWithImage_lines env gradientImage title;
          totalTextHeight = real (length lines) * lineHeight;
          y = (canvasHeight - totalTextHeight) / 2 + lineHeight / 2
      in generateThumbnailWithImage_draw (generateThumbnailWithImage_ctx gradientImage) y lines)"

text \<open>Lines 126 to 131: the file name is the sanitised title with \<open>.png\<close>.\<close>

definition generateThumbnailWithImage_fileName :: "jsstring \<Rightarrow> jsstring" where
  "generateThumbnailWithImage_fileName title = sanitize title @ str ''.png''"

definition generateThumbnailWithImage_outputPath :: "'e env \<Rightarrow> jsstring \<Rightarrow> jsstring" where
  "generateThumbnailWithImage_outputPath env title =
     path_join env
       [cwd env, str ''public'', str ''thumbnails'', generateThumbnailWithImage_fileName title]"

text \<open>Line 135: the value returned.\<close>

definition generateThumbnailWithImage_url :: "jsstring \<Rightarrow> jsstring" where
  "generateThumbnailWithImage_url title = str ''/thumbnails/'' @ sanitize title @ str ''.png''"

text \<open>
  The whole call, lines 70 to 136: rejected when \<open>loadImage\<close> rejects (nothing after
  line 89 runs) or when \<open>writeFile\<close> rejects.
\<close>

definition generateThumbnailWithImage ::
  "'e env \<Rightarrow> world \<Rightarrow> jsstring \<Rightarrow> ('e + jsstring) \<times> world" where
  "generateThumbnailWithImage env w title =
     (case loadImage env w (gradientImagePath env) of
        (Inl e, w1) \<Rightarrow> (Inl e, w1)
      | (Inr gradientImage, w1) \<Rightarrow>
          (let canvas = generateThumbnailWithImage_canvas env gradientImage title;
               outputPath = generateThumbnailWithImage_outputPath env title;
               buffer = toBuffer env canvas
           in case writeFile env w1 outputPath buffer of
                (Inl e, w2) \<Rightarrow> (Inl e, w2)
              | (Inr u, w2) \<Rightarrow> (Inr (generateThumbnailWithImage_url title), w2)))"

section \<open>The line breaking the specification describes\<close>

text \<open>
  The reference algorithm, written from the specification's sentences and not from the
  loop: start a line with the first word; for each later word, append it to the line
  when the width of the line, a space and the word is below the limit, otherwise
  commit the line and start a new one with the word; commit the last line at the end.
\<close>

fun spec_greedy_from ::
  "(jsstring \<Rightarrow> real) \<Rightarrow> real \<Rightarrow> jsstring \<Rightarrow> jsstring list \<Rightarrow> jsstring list" where
  "spec_greedy_from width_of limit current [] = [current]"
| "spec_greedy_from width_of limit current (word # rest) =
     (if width_of (current @ [sp] @ word) < limit
      then spec_greedy_from width_of limit (current @ [sp] @ word) rest
      else current # spec_greedy_from width_of limit word rest)"

definition spec_greedy_wrap ::
  "(jsstring \<Rightarrow> real) \<Rightarrow> real \<Rightarrow> jsstring list \<Rightarrow> jsstring list" where
  "spec_greedy_wrap width_of limit words =
     (case words of [] \<Rightarrow> [] | first # rest \<Rightarrow> spec_greedy_from width_of limit first rest)"

text \<open>
  "Split on whitespace", read as the language reads it: the code units the class
  \<open>\s\<close> matches (white space and line terminators), each one a separator.
\<close>

definition is_whitespace :: "codeunit \<Rightarrow> bool" where
  "is_whitespace c \<longleftrightarrow>
     (0x09 \<le> c \<and> c \<le> 0x0D) \<or> c = 0x20 \<or> c = 0xA0 \<or> c = 0x1680 \<or>
     (0x2000 \<le> c \<and> c \<le> 0x200A) \<or> c = 0x2028 \<or> c = 0x2029 \<or> c = 0x202F \<or>
     c = 0x205F \<or> c = 0x3000 \<or> c = 0xFEFF"

fun spec_split_whitespace_from :: "jsstring \<Rightarrow> jsstring \<Rightarrow> jsstring list" where
  "spec_split_whitespace_from cur [] = [cur]"
| "spec_split_whitespace_from cur (c # cs) =
     (if is_whitespace c then cur # spec_split_whitespace_from [] cs
      else spec_split_whitespace_from (cur @ [c]) cs)"

definition spec_split_whitespace :: "jsstring \<Rightarrow> jsstring list" where
  "spec_split_whitespace s = spec_split_whitespace_from [] s"

section \<open>A concrete environment\<close>

text \<open>
  An environment to run the renderers in: the working directory \<open>/app\<close>, paths joined
  with \<open>/\<close>, a monospaced font of 20 pixels a code unit whatever the font string, a
  decoder that accepts every file, an encoder that lists the kinds of the drawing
  calls, and a file system that accepts every write. Errors are \<open>errno\<close> numbers.
\<close>

fun op_code :: "draw_op \<Rightarrow> 8 word" where
  "op_code (FillRect s x y w h) = 1"
| "op_code (DrawImage i x y w h) = 2"
| "op_code (FillText t x y f s a b) = 3"

definition example_env :: "nat env" where
  "example_env =
     \<lparr>cwd = str ''/app'',
      path_join = join_with 0x2F,
      text_width = (\<lambda>f t. 20 * real (length t)),
      no_such_file = (\<lambda>p. 2),
      decode_image = (\<lambda>b. Inr (Image 1 1 b)),
      encode_png = (\<lambda>c. map op_code (drawn c)),
      write_error = (\<lambda>p. None)\<rparr>"

text \<open>The same with a read-only output directory: every write fails with \<open>EACCES\<close>.\<close>

definition readonly_env :: "nat env" where
  "readonly_env = example_env\<lparr>write_error := (\<lambda>p. Some 13)\<rparr>"

text \<open>A file system that holds the background image only, and an empty one.\<close>

definition example_world :: world where
  "example_world = \<lparr>files = [str ''/app/public/gradient-bg.png'' \<mapsto> [0x89, 0x50]], io_log = []\<rparr>"

definition empty_world :: world where
  "empty_world = \<lparr>files = Map.empty, io_log = []\<rparr>"

text \<open>
  \<open>path.join\<close> as Node has it on POSIX, for the environment below: the arguments that
  are not empty are joined with \<open>/\<close> and the result is normalised. Normalising drops
  empty segments and \<open>.\<close>, lets \<open>..\<close> remove the segment before it (above the root of
  an absolute path there is nothing to remove; a relative path keeps a leading \<open>..\<close>),
  and keeps a leading and a trailing \<open>/\<close>.
\<close>

fun node_resolve :: "bool \<Rightarrow> jsstring list \<Rightarrow> jsstring list \<Rightarrow> jsstring list" where
  "node_resolve allowAboveRoot res [] = res"
| "node_resolve allowAboveRoot res (seg # segs) =
     (if seg = [] \<or> seg = str ''.'' then node_resolve allowAboveRoot res segs
      else if seg = str ''..'' then
        (if res \<noteq> [] \<and> last res \<noteq> str ''..'' then node_resolve allowAboveRoot (butlast res) segs
         else if allowAboveRoot then node_resolve allowAboveRoot (res @ [str ''..'']) segs
         else node_resolve allowAboveRoot res segs)
      else node_resolve allowAboveRoot (res @ [seg]) segs)"

definition node_normalize :: "jsstring \<Rightarrow> jsstring" where
  "node_normalize path =
     (if path = [] then str ''.''
      else
        (let isAbsolute = (hd path = 0x2F);
             trailingSeparator = (last path = 0x2F);
             p = join_with 0x2F (node_resolve (\<not> isAbsolute) [] (split_on 0x2F path))
         in if p = [] then (if isAbsolute then str ''/'' else if trailingSeparator then str ''./'' else str ''.'')
            else (let p = (if trailingSeparator then p @ str ''/'' else p)
                  in if isAbsolute then 0x2F # p else p)))"

definition node_join :: "jsstring list \<Rightarrow> jsstring" where
  "node_join args =
     (let joined = filter (\<lambda>arg. arg \<noteq> []) args
      in if joined = [] then str ''.'' else node_normalize (join_with 0x2F joined))"

text \<open>The example environment with paths joined as Node joins them.\<close>

definition node_env :: "nat env" where
  "node_env = example_env\<lparr>path_join := node_join\<rparr>"

section \<open>Two calls in a row\<close>

text \<open>The second call starts from the file system the first one left.\<close>

definition generateThumbnail_twice ::
  "'e env \<Rightarrow> world \<Rightarrow> jsstring \<Rightarrow> ('e + jsstring) \<times> world" where
  "generateThumbnail_twice env w title =
     generateThumbnail env (snd (generateThumbnail env w title)) title"

definition generateThumbnailWithImage_twice ::
  "'e env \<Rightarrow> world \<Rightarrow> jsstring \<Rightarrow> ('e + jsstring) \<times> world" where
  "generateThumbnailWithImage_twice env w title =
     generateThumbnailWithImage env (snd (generateThumbnailWithImage env w title)) title"

section \<open>Facts about the pieces\<close>

subsection \<open>Splitting and joining\<close>

lemma split_from_not_Nil: "split_from sep cur s \<noteq> []"
  by (induction s arbitrary: cur) auto

lemma split_on_not_Nil: "split_on sep s \<noteq> []"
  by (simp add: split_on_def split_from_not_Nil)

lemma join_with_Cons: "join_with sep (w # ws) = (if ws = [] then w else w @ sep # join_with sep ws)"
  by (cases ws) auto

lemma join_split_from: "join_with sep (split_from sep cur s) = cur @ s"
  by (induction s arbitrary: cur) (auto simp: join_with_Cons split_from_not_Nil)

lemma join_split_on: "join_with sep (split_on sep s) = s"
  by (simp add: split_on_def join_split_from)

subsection \<open>The contexts\<close>

lemma maxTextWidth_760: "maxTextWidth = 760"
  by (simp add: maxTextWidth_def canvasWidth_def padding_def)

lemma generateThumbnail_ctx_eq:
  "generateThumbnail_ctx =
     \<lparr>width = 800, height = 400, font = str ''bold 40px Arial'', fillStyle = Color (str ''#ffffff''),
      textAlign = str ''center'', textBaseline = str ''middle'',
      drawn = [FillRect (Gradient (LinearGradient 0 0 800 400
                 [(0, str ''#588157''), (1, str ''#344e41'')])) 10 10 780 380]\<rparr>"
  by (simp add: generateThumbnail_ctx_def Let_def fillRect_def createCanvas_def
      createLinearGradient_def canvasWidth_def canvasHeight_def)

lemma generateThumbnailWithImage_ctx_eq:
  "generateThumbnailWithImage_ctx img =
     \<lparr>width = 800, height = 400, font = str ''bold 40px Arial'', fillStyle = Color (str ''#ffffff''),
      textAlign = str ''center'', textBaseline = str ''middle'',
      drawn = [DrawImage img 0 0 800 400]\<rparr>"
  by (simp add: generateThumbnailWithImage_ctx_def Let_def drawImage_def createCanvas_def
      canvasWidth_def canvasHeight_def)

lemma measureText_generateThumbnail_ctx:
  "measureText env generateThumbnail_ctx = text_width env (str ''bold 40px Arial'')"
  by (rule ext) (simp add: measureText_def generateThumbnail_ctx_eq)

lemma measureText_generateThumbnailWithImage_ctx:
  "measureText env (generateThumbnailWithImage_ctx img) = text_width env (str ''bold 40px Arial'')"
  by (rule ext) (simp add: measureText_def generateThumbnailWithImage_ctx_eq)

subsection \<open>The loops\<close>

lemma generateThumbnail_loop_greedy:
  "(case generateThumbnail_loop env ctx words i lines currentLine of (ls, c) \<Rightarrow> ls @ [c]) =
     lines @ spec_greedy_from (measureText env ctx) maxTextWidth currentLine (drop i words)"
proof (induction env ctx words i lines currentLine rule: generateThumbnail_loop.induct)
  case (1 env ctx words i lines currentLine)
  show ?case
  proof (cases "i < length words")
    case False
    then show ?thesis by (subst generateThumbnail_loop.simps) simp
  next
    case True
    then have d: "drop i words = words ! i # drop (i + 1) words"
      by (simp add: Cons_nth_drop_Suc)
    show ?thesis
    proof (cases "measureText env ctx (currentLine @ [sp] @ words ! i) < maxTextWidth")
      case fits: True
      with True "1.IH"(1)[OF True refl refl fits] show ?thesis
        by (subst generateThumbnail_loop.simps) (simp add: d Let_def)
    next
      case over: False
      with True "1.IH"(2)[OF True refl refl over] show ?thesis
        by (subst generateThumbnail_loop.simps) (simp add: d Let_def)
    qed
  qed
qed

lemma generateThumbnailWithImage_loop_greedy:
  "(case generateThumbnailWithImage_loop env ctx words i lines currentLine of (ls, c) \<Rightarrow> ls @ [c]) =
     lines @ spec_greedy_from (measureText env ctx) maxTextWidth currentLine (drop i words)"
proof (induction env ctx words i lines currentLine rule: generateThumbnailWithImage_loop.induct)
  case (1 env ctx words i lines currentLine)
  show ?case
  proof (cases "i < length words")
    case False
    then show ?thesis by (subst generateThumbnailWithImage_loop.simps) simp
  next
    case True
    then have d: "drop i words = words ! i # drop (i + 1) words"
      by (simp add: Cons_nth_drop_Suc)
    show ?thesis
    proof (cases "measureText env ctx (currentLine @ [sp] @ words ! i) < maxTextWidth")
      case fits: True
      with True "1.IH"(1)[OF True refl refl fits] show ?thesis
        by (subst generateThumbnailWithImage_loop.simps) (simp add: d Let_def)
    next
      case over: False
      with True "1.IH"(2)[OF True refl refl over] show ?thesis
        by (subst generateThumbnailWithImage_loop.simps) (simp add: d Let_def)
    qed
  qed
qed

lemma generateThumbnail_lines_greedy:
  "generateThumbnail_lines env title =
     spec_greedy_wrap (text_width env (str ''bold 40px Arial'')) 760 (split_on sp title)"
proof -
  obtain w ws where ws: "split_on sp title = w # ws"
    using split_on_not_Nil[of sp title] by (cases "split_on sp title") auto
  show ?thesis
    using generateThumbnail_loop_greedy[of env generateThumbnail_ctx "w # ws" 1 "[]" w]
    by (simp add: generateThumbnail_lines_def spec_greedy_wrap_def ws maxTextWidth_760
        measureText_generateThumbnail_ctx split: prod.splits)
qed

lemma generateThumbnailWithImage_lines_greedy:
  "generateThumbnailWithImage_lines env img title =
     spec_greedy_wrap (text_width env (str ''bold 40px Arial'')) 760 (split_on sp title)"
proof -
  obtain w ws where ws: "split_on sp title = w # ws"
    using split_on_not_Nil[of sp title] by (cases "split_on sp title") auto
  show ?thesis
    using generateThumbnailWithImage_loop_greedy
            [of env "generateThumbnailWithImage_ctx img" "w # ws" 1 "[]" w]
    by (simp add: generateThumbnailWithImage_lines_def spec_greedy_wrap_def ws maxTextWidth_760
        measureText_generateThumbnailWithImage_ctx split: prod.splits)
qed

subsection \<open>What the greedy lines keep\<close>

lemma spec_greedy_from_not_Nil: "spec_greedy_from width_of limit cur ws \<noteq> []"
  by (induction ws arbitrary: cur) auto

lemma spec_greedy_from_join:
  "join_with sp (spec_greedy_from width_of limit cur ws) = join_with sp (cur # ws)"
proof (induction ws arbitrary: cur)
  case Nil
  show ?case by simp
next
  case (Cons w ws)
  show ?case
    using Cons[of "cur @ [sp] @ w"] Cons[of w]
    by (auto simp: join_with_Cons spec_greedy_from_not_Nil)
qed

lemma spec_greedy_wrap_join:
  "join_with sp (spec_greedy_wrap width_of limit words) = join_with sp words"
  by (cases words) (simp_all add: spec_greedy_wrap_def spec_greedy_from_join)

lemma spec_greedy_from_width:
  "cur \<in> S \<or> width_of cur < limit \<Longrightarrow> set ws \<subseteq> S \<Longrightarrow>
   l \<in> set (spec_greedy_from width_of limit cur ws) \<Longrightarrow> l \<in> S \<or> width_of l < limit"
proof (induction ws arbitrary: cur)
  case Nil
  then show ?case by auto
next
  case (Cons w ws)
  show ?case
  proof (cases "width_of (cur @ [sp] @ w) < limit")
    case True
    with Cons.prems Cons.IH[of "cur @ [sp] @ w"] show ?thesis by auto
  next
    case False
    with Cons.prems Cons.IH[of w] show ?thesis by auto
  qed
qed

lemma spec_greedy_wrap_width:
  "l \<in> set (spec_greedy_wrap width_of limit words) \<Longrightarrow> l \<in> set words \<or> width_of l < limit"
proof (cases words)
  case Nil
  assume "l \<in> set (spec_greedy_wrap width_of limit words)"
  with Nil show ?thesis by (simp add: spec_greedy_wrap_def)
next
  case (Cons w ws)
  assume "l \<in> set (spec_greedy_wrap width_of limit words)"
  with Cons have "l \<in> set (spec_greedy_from width_of limit w ws)"
    by (simp add: spec_greedy_wrap_def)
  from spec_greedy_from_width[of w "set words" width_of limit ws l, OF _ _ this] Cons
  show ?thesis by auto
qed

subsection \<open>Drawing the lines\<close>

lemma generateThumbnail_draw_drawn:
  "drawn (generateThumbnail_draw ctx y lines) =
     drawn ctx @ map (\<lambda>i. FillText (lines ! i) 400 (y + real i * 50) (font ctx) (fillStyle ctx)
                            (textAlign ctx) (textBaseline ctx)) [0..<length lines]"
proof (induction lines arbitrary: ctx y)
  case Nil
  show ?case by simp
next
  case (Cons l ls)
  show ?case
    by (simp add: Cons.IH fillText_def canvasWidth_def lineHeight_def map_upt_Suc
        algebra_simps del: upt_Suc)
qed

lemma generateThumbnailWithImage_draw_drawn:
  "drawn (generateThumbnailWithImage_draw ctx y lines) =
     drawn ctx @ map (\<lambda>i. FillText (lines ! i) 400 (y + real i * 50) (font ctx) (fillStyle ctx)
                            (textAlign ctx) (textBaseline ctx)) [0..<length lines]"
proof (induction lines arbitrary: ctx y)
  case Nil
  show ?case by simp
next
  case (Cons l ls)
  show ?case
    by (simp add: Cons.IH fillText_def canvasWidth_def lineHeight_def map_upt_Suc
        algebra_simps del: upt_Suc)
qed

lemma generateThumbnail_canvas_drawn:
  "drawn (generateThumbnail_canvas env title) =
     FillRect (Gradient (LinearGradient 0 0 800 400 [(0, str ''#588157''), (1, str ''#344e41'')]))
       10 10 780 380 #
     map (\<lambda>i. FillText (generateThumbnail_lines env title ! i) 400
                 ((400 - real (length (generateThumbnail_lines env title)) * 50) / 2 + 50 / 2
                   + real i * 50)
                 (str ''bold 40px Arial'') (Color (str ''#ffffff'')) (str ''center'') (str ''middle''))
       [0..<length (generateThumbnail_lines env title)]"
  by (simp add: generateThumbnail_canvas_def Let_def generateThumbnail_draw_drawn
      generateThumbnail_ctx_eq canvasHeight_def lineHeight_def)

lemma generateThumbnailWithImage_canvas_drawn:
  "drawn (generateThumbnailWithImage_canvas env img title) =
     DrawImage img 0 0 800 400 #
     map (\<lambda>i. FillText (generateThumbnailWithImage_lines env img title ! i) 400
                 ((400 - real (length (generateThumbnailWithImage_lines env img title)) * 50) / 2
                   + 50 / 2 + real i * 50)
                 (str ''bold 40px Arial'') (Color (str ''#ffffff'')) (str ''center'') (str ''middle''))
       [0..<length (generateThumbnailWithImage_lines env img title)]"
  by (simp add: generateThumbnailWithImage_canvas_def Let_def generateThumbnailWithImage_draw_drawn
      generateThumbnailWithImage_ctx_eq canvasHeight_def lineHeight_def)

subsection \<open>The file name\<close>

lemma in_class_az09_i_ascii: "in_class_az09_i c \<Longrightarrow> c < 0x80"
  unfolding in_class_az09_i_def by (auto simp: word_le_nat_alt word_less_nat_alt)

lemma replace_non_alnum_ascii: "c \<in> set (replace_non_alnum s) \<Longrightarrow> c < 0x80"
  by (auto simp: replace_non_alnum_def underscore_def in_class_az09_i_ascii split: if_splits)

lemma length_sanitize: "length (sanitize title) = length title"
  by (simp add: sanitize_def toLowerCase_def replace_non_alnum_def)

lemma sanitize_nth:
  "i < length title \<Longrightarrow>
   sanitize title ! i =
     (if (0x61 \<le> title ! i \<and> title ! i \<le> 0x7A) \<or> (0x30 \<le> title ! i \<and> title ! i \<le> 0x39)
      then title ! i
      else if 0x41 \<le> title ! i \<and> title ! i \<le> 0x5A then title ! i + 0x20 else 0x5F)"
  by (auto simp: sanitize_def toLowerCase_def replace_non_alnum_def in_class_az09_i_def
      toLowerCase_unit_def underscore_def word_le_nat_alt)

lemma toLowerCase_unit_upper:
  "0x41 \<le> c \<Longrightarrow> c \<le> 0x5A \<Longrightarrow> 0x61 \<le> toLowerCase_unit c \<and> toLowerCase_unit c \<le> 0x7A"
proof -
  assume a: "0x41 \<le> c" and b: "c \<le> 0x5A"
  have u: "unat (c + 0x20) = unat c + 32"
    using b by (simp add: unat_word_ariths word_le_nat_alt)
  show ?thesis
    using a b u by (simp add: toLowerCase_unit_def word_le_nat_alt)
qed

lemma sanitize_chars:
  "c \<in> set (sanitize title) \<Longrightarrow>
   (0x61 \<le> c \<and> c \<le> 0x7A) \<or> (0x30 \<le> c \<and> c \<le> 0x39) \<or> c = 0x5F"
proof -
  assume "c \<in> set (sanitize title)"
  then obtain d where d: "d \<in> set title"
    and c: "c = toLowerCase_unit (if in_class_az09_i d then d else underscore)"
    by (auto simp: sanitize_def toLowerCase_def replace_non_alnum_def)
  show ?thesis
  proof (cases "in_class_az09_i d")
    case False
    with c show ?thesis by (simp add: toLowerCase_unit_def underscore_def)
  next
    case True
    then consider "0x61 \<le> d \<and> d \<le> 0x7A" | "0x41 \<le> d \<and> d \<le> 0x5A" | "0x30 \<le> d \<and> d \<le> 0x39"
      by (auto simp: in_class_az09_i_def)
    then show ?thesis
    proof cases
      case 1
      with c True show ?thesis by (auto simp: toLowerCase_unit_def word_le_nat_alt)
    next
      case 2
      with c True toLowerCase_unit_upper[of d] show ?thesis by simp
    next
      case 3
      with c True show ?thesis by (auto simp: toLowerCase_unit_def word_le_nat_alt)
    qed
  qed
qed

subsection \<open>The calls\<close>

lemma generateThumbnail_eq:
  "generateThumbnail env w title =
     (case write_error env (generateThumbnail_outputPath env title) of
        Some e \<Rightarrow>
          (Inl e,
           w\<lparr>io_log := io_log w @
                [WriteFile (generateThumbnail_outputPath env title)
                   (toBuffer env (generateThumbnail_canvas env title))]\<rparr>)
      | None \<Rightarrow>
          (Inr (generateThumbnail_url title),
           w\<lparr>files := (files w)(generateThumbnail_outputPath env title \<mapsto>
                         toBuffer env (generateThumbnail_canvas env title)),
             io_log := io_log w @
                [WriteFile (generateThumbnail_outputPath env title)
                   (toBuffer env (generateThumbnail_canvas env title))]\<rparr>))"
  by (simp add: generateThumbnail_def writeFile_def Let_def split: option.splits)

lemma generateThumbnailWithImage_load_fails:
  "fst (loadImage env w (gradientImagePath env)) = Inl e \<Longrightarrow>
   generateThumbnailWithImage env w title =
     (Inl e, w\<lparr>io_log := io_log w @ [LoadImage (gradientImagePath env)]\<rparr>)"
  by (simp add: generateThumbnailWithImage_def loadImage_def)

lemma generateThumbnailWithImage_loaded:
  "fst (loadImage env w (gradientImagePath env)) = Inr img \<Longrightarrow>
   generateThumbnailWithImage env w title =
     (case write_error env (generateThumbnailWithImage_outputPath env title) of
        Some e \<Rightarrow>
          (Inl e,
           w\<lparr>io_log := io_log w @
                [LoadImage (gradientImagePath env),
                 WriteFile (generateThumbnailWithImage_outputPath env title)
                   (toBuffer env (generateThumbnailWithImage_canvas env img title))]\<rparr>)
      | None \<Rightarrow>
          (Inr (generateThumbnailWithImage_url title),
           w\<lparr>files := (files w)(generateThumbnailWithImage_outputPath env title \<mapsto>
                         toBuffer env (generateThumbnailWithImage_canvas env img title)),
             io_log := io_log w @
                [LoadImage (gradientImagePath env),
                 WriteFile (generateThumbnailWithImage_outputPath env title)
                   (toBuffer env (generateThumbnailWithImage_canvas env img title))]\<rparr>))"
  by (simp add: generateThumbnailWithImage_def loadImage_def writeFile_def Let_def
      split: option.splits)

section \<open>The claims\<close>

subsection \<open>The lines\<close>

text \<open>
  C2, as the code has it: in both renderers the lines are the greedy line breaking of
  the specification (limit \<open>800 - 2 * 20\<close>, widths measured in the font
  \<open>bold 40px Arial\<close>), applied to the pieces of \<open>title.split(' ')\<close>: the separator is the
  space U+0020 alone, and every occurrence of it separates.
\<close>

theorem C2_lines_are_greedy_wrap_of_space_split:
  "generateThumbnail_lines env title =
     spec_greedy_wrap (text_width env (str ''bold 40px Arial'')) (800 - 2 * 20) (split_on sp title) \<and>
   generateThumbnailWithImage_lines env img title =
     spec_greedy_wrap (text_width env (str ''bold 40px Arial'')) (800 - 2 * 20) (split_on sp title)"
  by (simp add: generateThumbnail_lines_greedy generateThumbnailWithImage_lines_greedy)

text \<open>
  C2 as stated, with the words split on whitespace, fails on the title \<open>a<TAB>b\<close>:
  the code keeps it as one word and draws the one line \<open>a<TAB>b\<close>, while the words
  \<open>a\<close> and \<open>b\<close> give the line \<open>a b\<close>.
\<close>

theorem C2_whitespace_split_counterexample:
  "generateThumbnail_lines example_env [0x61, 0x09, 0x62] \<noteq>
     spec_greedy_wrap (text_width example_env (str ''bold 40px Arial'')) (800 - 2 * 20)
       (spec_split_whitespace [0x61, 0x09, 0x62])"
  by code_simp

text \<open>
  C5, as the code has it: a line is either one word of the title, which the loop
  never measures, or a line built by appending, whose width was measured below 760
  when its last word was appended.
\<close>

theorem C5_joined_lines_fit:
  "(\<forall>line \<in> set (generateThumbnail_lines env title).
      line \<in> set (split_on sp title) \<or> measureText env generateThumbnail_ctx line < 760) \<and>
   (\<forall>line \<in> set (generateThumbnailWithImage_lines env img title).
      line \<in> set (split_on sp title) \<or>
      measureText env (generateThumbnailWithImage_ctx img) line < 760)"
  using spec_greedy_wrap_width[of _ "text_width env (str ''bold 40px Arial'')" 760 "split_on sp title"]
  by (simp add: generateThumbnail_lines_greedy generateThumbnailWithImage_lines_greedy
      measureText_generateThumbnail_ctx measureText_generateThumbnailWithImage_ctx)

text \<open>
  C5 at the title \<open>aa bb\<close>: its one line is not a word of the title, so it is the
  measured width that puts it below 760.
\<close>

theorem C5_joined_lines_fit_witness:
  "generateThumbnail_lines example_env (str ''aa bb'') = [str ''aa bb''] \<and>
   (str ''aa bb'' \<in> set (split_on sp (str ''aa bb'')) \<or>
    measureText example_env generateThumbnail_ctx (str ''aa bb'') < 760) \<and>
   str ''aa bb'' \<notin> set (split_on sp (str ''aa bb''))"
proof -
  have l: "generateThumbnail_lines example_env (str ''aa bb'') = [str ''aa bb'']"
    by code_simp
  have n: "str ''aa bb'' \<notin> set (split_on sp (str ''aa bb''))"
    by code_simp
  from C5_joined_lines_fit[of example_env "str ''aa bb''" "Image 1 1 []"] l n
  show ?thesis by simp
qed

text \<open>
  C5 as stated fails on a title that is one long word: 39 letters \<open>a\<close> at 20 pixels
  each are one line of width 780, above 760.
\<close>

theorem C5_single_word_counterexample:
  "generateThumbnail_lines example_env (replicate 39 0x61) = [replicate 39 0x61] \<and>
   measureText example_env generateThumbnail_ctx (replicate 39 0x61) = 780 \<and>
   \<not> measureText example_env generateThumbnail_ctx (replicate 39 0x61) \<le> 760"
  by code_simp

text \<open>
  C8: for every title the image renderer computes the lines the gradient renderer
  computes, so as many of them, and the two canvases hold the same text drawing calls
  after one background call each.
\<close>

theorem C8_same_lines_in_both_renderers:
  "generateThumbnailWithImage_lines env img title = generateThumbnail_lines env title \<and>
   length (generateThumbnailWithImage_lines env img title) = length (generateThumbnail_lines env title) \<and>
   (\<exists>text_ops.
      drawn (generateThumbnail_canvas env title) =
        FillRect (Gradient (LinearGradient 0 0 800 400 [(0, str ''#588157''), (1, str ''#344e41'')]))
          10 10 780 380 # text_ops \<and>
      drawn (generateThumbnailWithImage_canvas env img title) =
        DrawImage img 0 0 800 400 # text_ops)"
  by (simp add: generateThumbnail_canvas_drawn generateThumbnailWithImage_canvas_drawn
      generateThumbnail_lines_greedy generateThumbnailWithImage_lines_greedy)

text \<open>
  C10: the lines of a title, joined with single spaces in their order, are the title:
  the wrap drops, repeats and moves no code unit.
\<close>

theorem C10_join_lines_is_title:
  "join_with sp (generateThumbnail_lines env title) = title \<and>
   join_with sp (generateThumbnailWithImage_lines env img title) = title"
  by (simp add: generateThumbnail_lines_greedy generateThumbnailWithImage_lines_greedy
      spec_greedy_wrap_join join_split_on)

subsection \<open>The drawing\<close>

text \<open>
  C7: after the background call, the canvas holds one \<open>fillText\<close> per line, in the
  order of the lines; line \<open>i\<close> of \<open>n\<close> is drawn at \<open>x = 800 / 2\<close> and
  \<open>y = (400 - n * 50) / 2 + 50 / 2 + i * 50\<close>, in the font \<open>bold 40px Arial\<close>, filled
  \<open>#ffffff\<close>, aligned \<open>center\<close> on the baseline \<open>middle\<close>.
\<close>

theorem C7_lines_drawn_centred:
  "drawn (generateThumbnail_canvas env title) =
     FillRect (Gradient (LinearGradient 0 0 800 400 [(0, str ''#588157''), (1, str ''#344e41'')]))
       10 10 780 380 #
     map (\<lambda>i. FillText (generateThumbnail_lines env title ! i) (800 / 2)
                 ((400 - real (length (generateThumbnail_lines env title)) * 50) / 2 + 50 / 2
                   + real i * 50)
                 (str ''bold 40px Arial'') (Color (str ''#ffffff'')) (str ''center'') (str ''middle''))
       [0..<length (generateThumbnail_lines env title)] \<and>
   drawn (generateThumbnailWithImage_canvas env img title) =
     DrawImage img 0 0 800 400 #
     map (\<lambda>i. FillText (generateThumbnailWithImage_lines env img title ! i) (800 / 2)
                 ((400 - real (length (generateThumbnailWithImage_lines env img title)) * 50) / 2
                   + 50 / 2 + real i * 50)
                 (str ''bold 40px Arial'') (Color (str ''#ffffff'')) (str ''center'') (str ''middle''))
       [0..<length (generateThumbnailWithImage_lines env img title)]"
  by (simp add: generateThumbnail_canvas_drawn generateThumbnailWithImage_canvas_drawn)

subsection \<open>The file and the result of a call\<close>

text \<open>
  C1 holds for \<open>generateThumbnailWithImage\<close> and not for \<open>generateThumbnail\<close>, which
  puts the title into the file name and the URL as it is (lines 62 and 67). On the
  title \<open>Hello World\<close> it writes \<open>Hello World.png\<close> and returns
  \<open>/thumbnails/Hello World.png\<close>, which is not the sanitised name; the image renderer
  writes \<open>hello_world.png\<close> and returns \<open>/thumbnails/hello_world.png\<close>.
\<close>

theorem C1_generateThumbnail_keeps_raw_title:
  "fst (generateThumbnail example_env example_world (str ''Hello World'')) =
     Inr (str ''/thumbnails/Hello World.png'') \<and>
   io_log (snd (generateThumbnail example_env example_world (str ''Hello World''))) =
     [WriteFile (str ''/app/public/thumbnails/Hello World.png'') [1, 3]] \<and>
   generateThumbnail_fileName (str ''Hello World'') \<noteq> sanitize (str ''Hello World'') @ str ''.png'' \<and>
   fst (generateThumbnailWithImage example_env example_world (str ''Hello World'')) =
     Inr (str ''/thumbnails/hello_world.png'') \<and>
   io_log (snd (generateThumbnailWithImage example_env example_world (str ''Hello World''))) =
     [LoadImage (str ''/app/public/gradient-bg.png''),
      WriteFile (str ''/app/public/thumbnails/hello_world.png'') [2, 3]]"
  by code_simp

text \<open>
  C3: on the empty title both renderers compute the one line \<open>""\<close> and draw it at
  \<open>(400, 200)\<close> after the background. The call has no failure of its own: it returns
  \<open>/thumbnails/.png\<close> unless \<open>loadImage\<close> or \<open>writeFile\<close> rejects, and then it rejects
  with their error.
\<close>

theorem C3_empty_title_renders_one_blank_line:
  "generateThumbnail_lines env [] = [[]] \<and>
   generateThumbnailWithImage_lines env img [] = [[]] \<and>
   drawn (generateThumbnail_canvas env []) =
     [FillRect (Gradient (LinearGradient 0 0 800 400 [(0, str ''#588157''), (1, str ''#344e41'')]))
        10 10 780 380,
      FillText [] 400 200 (str ''bold 40px Arial'') (Color (str ''#ffffff'')) (str ''center'')
        (str ''middle'')] \<and>
   drawn (generateThumbnailWithImage_canvas env img []) =
     [DrawImage img 0 0 800 400,
      FillText [] 400 200 (str ''bold 40px Arial'') (Color (str ''#ffffff'')) (str ''center'')
        (str ''middle'')] \<and>
   fst (generateThumbnail env w []) =
     (case write_error env (generateThumbnail_outputPath env []) of
        Some e \<Rightarrow> Inl e | None \<Rightarrow> Inr (str ''/thumbnails/.png'')) \<and>
   fst (generateThumbnailWithImage env w []) =
     (case fst (loadImage env w (gradientImagePath env)) of
        Inl e \<Rightarrow> Inl e
      | Inr loaded \<Rightarrow>
          (case write_error env (generateThumbnailWithImage_outputPath env []) of
             Some e \<Rightarrow> Inl e | None \<Rightarrow> Inr (str ''/thumbnails/.png'')))"
proof -
  have l1: "generateThumbnail_lines env [] = [[]]"
    by (simp add: generateThumbnail_lines_greedy split_on_def spec_greedy_wrap_def)
  have l2: "generateThumbnailWithImage_lines env img [] = [[]]"
    by (simp add: generateThumbnailWithImage_lines_greedy split_on_def spec_greedy_wrap_def)
  have d1: "drawn (generateThumbnail_canvas env []) =
     [FillRect (Gradient (LinearGradient 0 0 800 400 [(0, str ''#588157''), (1, str ''#344e41'')]))
        10 10 780 380,
      FillText [] 400 200 (str ''bold 40px Arial'') (Color (str ''#ffffff'')) (str ''center'')
        (str ''middle'')]"
    by (simp add: generateThumbnail_canvas_drawn l1)
  have d2: "drawn (generateThumbnailWithImage_canvas env img []) =
     [DrawImage img 0 0 800 400,
      FillText [] 400 200 (str ''bold 40px Arial'') (Color (str ''#ffffff'')) (str ''center'')
        (str ''middle'')]"
    by (simp add: generateThumbnailWithImage_canvas_drawn l2)
  have r1: "fst (generateThumbnail env w []) =
     (case write_error env (generateThumbnail_outputPath env []) of
        Some e \<Rightarrow> Inl e | None \<Rightarrow> Inr (str ''/thumbnails/.png''))"
    by (simp add: generateThumbnail_eq generateThumbnail_url_def str_def split: option.splits)
  have r2: "fst (generateThumbnailWithImage env w []) =
     (case fst (loadImage env w (gradientImagePath env)) of
        Inl e \<Rightarrow> Inl e
      | Inr loaded \<Rightarrow>
          (case write_error env (generateThumbnailWithImage_outputPath env []) of
             Some e \<Rightarrow> Inl e | None \<Rightarrow> Inr (str ''/thumbnails/.png'')))"
  proof (cases "fst (loadImage env w (gradientImagePath env))")
    case (Inl e)
    then show ?thesis by (simp add: generateThumbnailWithImage_load_fails)
  next
    case (Inr loaded)
    then show ?thesis
      by (simp add: generateThumbnailWithImage_loaded generateThumbnailWithImage_url_def
          sanitize_def toLowerCase_def replace_non_alnum_def str_def split: option.splits)
  qed
  from l1 l2 d1 d2 r1 r2 show ?thesis by blast
qed

text \<open>
  C4 holds for \<open>generateThumbnailWithImage\<close> and not for \<open>generateThumbnail\<close>, which
  hands the raw title to \<open>path.join\<close> (line 62). With paths joined as Node joins them,
  the title \<open>../escaped\<close> makes it write \<open>/app/public/escaped.png\<close>, outside the
  thumbnails directory, and return \<open>/thumbnails/../escaped.png\<close>; the title
  \<open>../gradient-bg\<close> gives it the path of the background image as its output path. The
  image renderer writes \<open>/app/public/thumbnails/___escaped.png\<close> for the first title.
\<close>

theorem C4_generateThumbnail_leaves_the_thumbnails_directory:
  "fst (generateThumbnail node_env example_world (str ''../escaped'')) =
     Inr (str ''/thumbnails/../escaped.png'') \<and>
   io_log (snd (generateThumbnail node_env example_world (str ''../escaped''))) =
     [WriteFile (str ''/app/public/escaped.png'') [1, 3]] \<and>
   files (snd (generateThumbnail node_env example_world (str ''../escaped'')))
       (str ''/app/public/escaped.png'') = Some [1, 3] \<and>
   take (length (str ''/app/public/thumbnails/'')) (str ''/app/public/escaped.png'') \<noteq>
     str ''/app/public/thumbnails/'' \<and>
   generateThumbnail_outputPath node_env (str ''../gradient-bg'') = gradientImagePath node_env \<and>
   fst (generateThumbnailWithImage node_env example_world (str ''../escaped'')) =
     Inr (str ''/thumbnails/___escaped.png'') \<and>
   io_log (snd (generateThumbnailWithImage node_env example_world (str ''../escaped''))) =
     [LoadImage (str ''/app/public/gradient-bg.png''),
      WriteFile (str ''/app/public/thumbnails/___escaped.png'') [2, 3]]"
  by code_simp

text \<open>
  C6: when \<open>loadImage\<close> rejects with \<open>e\<close>, \<open>generateThumbnailWithImage\<close> rejects with
  \<open>e\<close>, having made that one I/O call and no write; when \<open>writeFile\<close> rejects with \<open>e\<close>,
  either renderer rejects with \<open>e\<close> after that one write attempt. No file changes and
  no URL is returned.
\<close>

theorem C6_io_failures_reject_the_call:
  "(fst (loadImage env w (gradientImagePath env)) = Inl e \<longrightarrow>
      generateThumbnailWithImage env w title =
        (Inl e, w\<lparr>io_log := io_log w @ [LoadImage (gradientImagePath env)]\<rparr>)) \<and>
   (fst (loadImage env w (gradientImagePath env)) = Inr img \<and>
    write_error env (generateThumbnailWithImage_outputPath env title) = Some e \<longrightarrow>
      generateThumbnailWithImage env w title =
        (Inl e,
         w\<lparr>io_log := io_log w @
              [LoadImage (gradientImagePath env),
               WriteFile (generateThumbnailWithImage_outputPath env title)
                 (toBuffer env (generateThumbnailWithImage_canvas env img title))]\<rparr>)) \<and>
   (write_error env (generateThumbnail_outputPath env title) = Some e \<longrightarrow>
      generateThumbnail env w title =
        (Inl e,
         w\<lparr>io_log := io_log w @
              [WriteFile (generateThumbnail_outputPath env title)
                 (toBuffer env (generateThumbnail_canvas env title))]\<rparr>))"
  by (simp add: generateThumbnailWithImage_load_fails generateThumbnailWithImage_loaded
      generateThumbnail_eq)

text \<open>
  C6 where the background image is missing, and where the output directory is read-only.
\<close>

theorem C6_io_failures_reject_the_call_witness:
  "generateThumbnailWithImage example_env empty_world (str ''Hello'') =
     (Inl 2, empty_world\<lparr>io_log := io_log empty_world @ [LoadImage (gradientImagePath example_env)]\<rparr>) \<and>
   generateThumbnailWithImage readonly_env example_world (str ''Hello'') =
     (Inl 13,
      example_world\<lparr>io_log := io_log example_world @
         [LoadImage (gradientImagePath readonly_env),
          WriteFile (generateThumbnailWithImage_outputPath readonly_env (str ''Hello''))
            (toBuffer readonly_env
               (generateThumbnailWithImage_canvas readonly_env (Image 1 1 [0x89, 0x50]) (str ''Hello'')))]\<rparr>) \<and>
   generateThumbnail readonly_env example_world (str ''Hello'') =
     (Inl 13,
      example_world\<lparr>io_log := io_log example_world @
         [WriteFile (generateThumbnail_outputPath readonly_env (str ''Hello''))
            (toBuffer readonly_env (generateThumbnail_canvas readonly_env (str ''Hello'')))]\<rparr>)"
proof -
  have h1: "fst (loadImage example_env empty_world (gradientImagePath example_env)) = Inl 2"
    by code_simp
  have h2: "fst (loadImage readonly_env example_world (gradientImagePath readonly_env)) =
      Inr (Image 1 1 [0x89, 0x50])"
    by code_simp
  have h3: "write_error readonly_env (generateThumbnailWithImage_outputPath readonly_env (str ''Hello'')) =
      Some 13"
    by (simp add: readonly_env_def)
  have h4: "write_error readonly_env (generateThumbnail_outputPath readonly_env (str ''Hello'')) =
      Some 13"
    by (simp add: readonly_env_def)
  from C6_io_failures_reject_the_call[of example_env empty_world 2 "str ''Hello''"]
       C6_io_failures_reject_the_call
         [of readonly_env example_world 13 "str ''Hello''" "Image 1 1 [0x89, 0x50]"]
       h1 h2 h3 h4
  show ?thesis by simp
qed

text \<open>
  C9: a second call with the same title returns what the first returned and leaves the
  files as the first left them; when the calls return a URL, both wrote the same bytes
  to the same path. For \<open>generateThumbnailWithImage\<close> this needs the second call to
  load what the first loaded, which is so whenever the output path is not the path of
  the background image. Font metrics, decoder and encoder are functions of their
  arguments here.
\<close>

theorem C9_second_call_repeats_the_first:
  "fst (generateThumbnail_twice env w title) = fst (generateThumbnail env w title) \<and>
   files (snd (generateThumbnail_twice env w title)) = files (snd (generateThumbnail env w title)) \<and>
   (fst (generateThumbnail env w title) = Inr url \<longrightarrow>
      io_log (snd (generateThumbnail env w title)) =
        io_log w @
          [WriteFile (generateThumbnail_outputPath env title)
             (toBuffer env (generateThumbnail_canvas env title))] \<and>
      io_log (snd (generateThumbnail_twice env w title)) =
        io_log w @
          [WriteFile (generateThumbnail_outputPath env title)
             (toBuffer env (generateThumbnail_canvas env title)),
           WriteFile (generateThumbnail_outputPath env title)
             (toBuffer env (generateThumbnail_canvas env title))]) \<and>
   (generateThumbnailWithImage_outputPath env title \<noteq> gradientImagePath env \<longrightarrow>
      fst (loadImage env (snd (generateThumbnailWithImage env w title)) (gradientImagePath env)) =
        fst (loadImage env w (gradientImagePath env))) \<and>
   (fst (loadImage env (snd (generateThumbnailWithImage env w title)) (gradientImagePath env)) =
      fst (loadImage env w (gradientImagePath env)) \<longrightarrow>
      fst (generateThumbnailWithImage_twice env w title) = fst (generateThumbnailWithImage env w title) \<and>
      files (snd (generateThumbnailWithImage_twice env w title)) =
        files (snd (generateThumbnailWithImage env w title)) \<and>
      (fst (generateThumbnailWithImage env w title) = Inr url \<longrightarrow>
         (\<exists>buffer.
            io_log (snd (generateThumbnailWithImage env w title)) =
              io_log w @
                [LoadImage (gradientImagePath env),
                 WriteFile (generateThumbnailWithImage_outputPath env title) buffer] \<and>
            io_log (snd (generateThumbnailWithImage_twice env w title)) =
              io_log w @
                [LoadImage (gradientImagePath env),
                 WriteFile (generateThumbnailWithImage_outputPath env title) buffer,
                 LoadImage (gradientImagePath env),
                 WriteFile (generateThumbnailWithImage_outputPath env title) buffer])))"
proof -
  have a: "fst (generateThumbnail_twice env w title) = fst (generateThumbnail env w title)"
    by (simp add: generateThumbnail_twice_def generateThumbnail_eq split: option.splits)
  have b: "files (snd (generateThumbnail_twice env w title)) =
      files (snd (generateThumbnail env w title))"
    by (simp add: generateThumbnail_twice_def generateThumbnail_eq split: option.splits)
  have c: "fst (generateThumbnail env w title) = Inr url \<longrightarrow>
      io_log (snd (generateThumbnail env w title)) =
        io_log w @
          [WriteFile (generateThumbnail_outputPath env title)
             (toBuffer env (generateThumbnail_canvas env title))] \<and>
      io_log (snd (generateThumbnail_twice env w title)) =
        io_log w @
          [WriteFile (generateThumbnail_outputPath env title)
             (toBuffer env (generateThumbnail_canvas env title)),
           WriteFile (generateThumbnail_outputPath env title)
             (toBuffer env (generateThumbnail_canvas env title))]"
    by (simp add: generateThumbnail_twice_def generateThumbnail_eq split: option.splits)
  have d: "fst (loadImage env (snd (generateThumbnailWithImage env w title)) (gradientImagePath env)) =
        fst (loadImage env w (gradientImagePath env))"
    if ne: "generateThumbnailWithImage_outputPath env title \<noteq> gradientImagePath env"
  proof (cases "fst (loadImage env w (gradientImagePath env))")
    case (Inl e)
    then show ?thesis
      by (simp add: generateThumbnailWithImage_load_fails) (simp add: loadImage_def)
  next
    case (Inr img)
    show ?thesis
      using ne
      by (simp add: generateThumbnailWithImage_loaded[OF Inr] split: option.splits)
         (simp add: loadImage_def)
  qed
  have e: "fst (generateThumbnailWithImage_twice env w title) =
        fst (generateThumbnailWithImage env w title) \<and>
      files (snd (generateThumbnailWithImage_twice env w title)) =
        files (snd (generateThumbnailWithImage env w title)) \<and>
      (fst (generateThumbnailWithImage env w title) = Inr url \<longrightarrow>
         (\<exists>buffer.
            io_log (snd (generateThumbnailWithImage env w title)) =
              io_log w @
                [LoadImage (gradientImagePath env),
                 WriteFile (generateThumbnailWithImage_outputPath env title) buffer] \<and>
            io_log (snd (generateThumbnailWithImage_twice env w title)) =
              io_log w @
                [LoadImage (gradientImagePath env),
                 WriteFile (generateThumbnailWithImage_outputPath env title) buffer,
                 LoadImage (gradientImagePath env),
                 WriteFile (generateThumbnailWithImage_outputPath env title) buffer]))"
    if same: "fst (loadImage env (snd (generateThumbnailWithImage env w title)) (gradientImagePath env)) =
        fst (loadImage env w (gradientImagePath env))"
  proof (cases "fst (loadImage env w (gradientImagePath env))")
    case (Inl e)
    with same
    have "fst (loadImage env (snd (generateThumbnailWithImage env w title)) (gradientImagePath env)) =
        Inl e"
      by simp
    from generateThumbnailWithImage_load_fails[OF this, of title] Inl
    show ?thesis
      by (simp add: generateThumbnailWithImage_twice_def generateThumbnailWithImage_load_fails)
  next
    case (Inr img)
    note first = generateThumbnailWithImage_loaded[OF Inr, of title]
    from same Inr
    have "fst (loadImage env (snd (generateThumbnailWithImage env w title)) (gradientImagePath env)) =
        Inr img"
      by simp
    from generateThumbnailWithImage_loaded[OF this, of title]
    show ?thesis
      by (cases "write_error env (generateThumbnailWithImage_outputPath env title)")
         (simp_all add: generateThumbnailWithImage_twice_def first)
  qed
  from a b c d e show ?thesis by blast
qed

text \<open>C9 at the title \<open>Same Title\<close> with the background image in place.\<close>

theorem C9_second_call_repeats_the_first_witness:
  "generateThumbnailWithImage_outputPath example_env (str ''Same Title'') \<noteq>
     gradientImagePath example_env \<and>
   fst (generateThumbnail example_env example_world (str ''Same Title'')) =
     Inr (str ''/thumbnails/Same Title.png'') \<and>
   fst (generateThumbnail_twice example_env example_world (str ''Same Title'')) =
     Inr (str ''/thumbnails/Same Title.png'') \<and>
   fst (generateThumbnailWithImage example_env example_world (str ''Same Title'')) =
     Inr (str ''/thumbnails/same_title.png'') \<and>
   fst (generateThumbnailWithImage_twice example_env example_world (str ''Same Title'')) =
     Inr (str ''/thumbnails/same_title.png'') \<and>
   files (snd (generateThumbnailWithImage_twice example_env example_world (str ''Same Title''))) =
     files (snd (generateThumbnailWithImage example_env example_world (str ''Same Title'')))"
proof -
  have h1: "generateThumbnailWithImage_outputPath example_env (str ''Same Title'') \<noteq>
      gradientImagePath example_env"
    by code_simp
  have h2: "fst (generateThumbnail example_env example_world (str ''Same Title'')) =
      Inr (str ''/thumbnails/Same Title.png'')"
    by code_simp
  have h3: "fst (generateThumbnailWithImage example_env example_world (str ''Same Title'')) =
      Inr (str ''/thumbnails/same_title.png'')"
    by code_simp
  from C9_second_call_repeats_the_first
         [of example_env example_world "str ''Same Title''" "str ''/thumbnails/Same Title.png''"]
       h1 h2 h3
  show ?thesis by simp
qed

end
